theory Spec2Isabelle
  imports Complex_Main
begin

section \<open>Errors and results\<close>

text \<open>
  Every \<open>raise\<close> of the Python source is a value of \<open>error\<close>; an operation that can
  raise returns \<open>error + 'a\<close> with \<open>Inl\<close> for the exception.
  \<^item> \<open>Exception msg\<close>: \<open>raise Exception(msg)\<close> in \<open>predictor.py\<close>;
  \<^item> \<open>ValueError msg\<close>: raised by numpy and scikit-learn on a zero-size reduction,
    a shape mismatch or an empty training set;
  \<^item> \<open>AttributeError attr\<close>: attribute \<open>attr\<close> looked up on \<open>None\<close>;
  \<^item> \<open>OSError msg\<close>: a failure of the file system or of joblib;
  \<^item> \<open>HTTPException code msg\<close>: raised by the endpoints of \<open>main.py\<close>.
\<close>

datatype error =
    Exception string
  | ValueError string
  | AttributeError string
  | OSError string
  | HTTPException nat string

fun error_str :: "error \<Rightarrow> string" where
  "error_str (Exception m) = m"
| "error_str (ValueError m) = m"
| "error_str (AttributeError m) = m"
| "error_str (OSError m) = m"
| "error_str (HTTPException c m) = m"

section \<open>The trained model and the predictor (model/predictor.py)\<close>

text \<open>
  The regression artifact is opaque to the repository: it is used only through
  \<open>model.predict(matrix)\<close> and \<open>model.feature_importances_\<close>. A model is therefore
  any row scorer together with its importance vector (absent when the attribute is).
  Scores are real numbers; floating-point rounding and NaN are outside the model.
\<close>

datatype model = Model (predict_row: "real list \<Rightarrow> real") (feature_importances: "real list option")

definition model_predict :: "model \<Rightarrow> real list list \<Rightarrow> real list" where
  "model_predict m X = map (predict_row m) X"

record predictor =
  model :: "model option"
  is_loaded :: bool
  feature_names :: "string list"

record prediction =
  priority_score :: int
  reason :: string

definition FEATURE_NAMES :: "string list" where
  "FEATURE_NAMES = [''age'', ''severity'', ''rural'', ''chronic'', ''waiting_time'']"

definition RURAL_FAIRNESS_UPLIFT :: real where
  "RURAL_FAIRNESS_UPLIFT = 10"

definition init_predictor :: predictor where
  "init_predictor = \<lparr>model = None, is_loaded = False, feature_names = FEATURE_NAMES\<rparr>"

subsection \<open>numpy and Python primitives used by the scorer\<close>

definition np_clip1 :: "real \<Rightarrow> real \<Rightarrow> real \<Rightarrow> real" where
  "np_clip1 x lo hi = min hi (max lo x)"

definition py_int :: "real \<Rightarrow> int" where
  "py_int x = (if 0 \<le> x then \<lfloor>x\<rfloor> else \<lceil>x\<rceil>)"

fun join_str :: "string \<Rightarrow> string list \<Rightarrow> string" where
  "join_str sep [] = []"
| "join_str sep [x] = x"
| "join_str sep (x # y # ys) = x @ sep @ join_str sep (y # ys)"

subsection \<open>Explanation\<close>

text \<open>
  The list \<open>factors\<close> of \<open>_generate_explanation\<close>: it starts empty and each
  \<open>if\<close>/\<open>elif\<close> group appends at most one entry, in source order.
\<close>

definition explanation_factors :: "int \<Rightarrow> int \<Rightarrow> int \<Rightarrow> int \<Rightarrow> real \<Rightarrow> string list" where
  "explanation_factors age severity rural chronic waiting_time =
     (let factors = [];
          factors = (if severity \<ge> 8 then factors @ [''High severity'']
                     else if severity \<ge> 5 then factors @ [''Moderate severity'']
                     else factors @ [''Low severity'']);
          factors = (if age \<ge> 65 then factors @ [''elderly patient'']
                     else if age \<ge> 50 then factors @ [''middle-aged patient'']
                     else factors);
          factors = (if rural = 1 then factors @ [''rural location (fairness uplift applied)'']
                     else factors);
          factors = (if chronic = 1 then factors @ [''chronic illness''] else factors);
          factors = (if waiting_time \<ge> 60 then factors @ [''long wait time'']
                     else if waiting_time \<ge> 30 then factors @ [''moderate wait time'']
                     else factors)
      in factors)"

definition priority_level :: "int \<Rightarrow> string" where
  "priority_level score =
     (if score \<ge> 80 then ''HIGH PRIORITY''
      else if score \<ge> 50 then ''MEDIUM PRIORITY''
      else ''LOW PRIORITY'')"

text \<open>The three-way branch on \<open>len(factors)\<close> that builds \<open>factor_text\<close>.\<close>

definition join_factors :: "string list \<Rightarrow> string" where
  "join_factors factors =
     (if length factors > 1 then join_str '', '' (butlast factors) @ '', and '' @ last factors
      else if length factors = 1 then hd factors
      else ''standard case'')"

definition generate_explanation :: "int \<Rightarrow> int \<Rightarrow> int \<Rightarrow> int \<Rightarrow> real \<Rightarrow> int \<Rightarrow> string" where
  "generate_explanation age severity rural chronic waiting_time score =
     priority_level score @ '': ''
       @ join_factors (explanation_factors age severity rural chronic waiting_time)"

subsection \<open>Scoring\<close>

definition feature_row :: "int \<Rightarrow> int \<Rightarrow> int \<Rightarrow> int \<Rightarrow> real \<Rightarrow> real list" where
  "feature_row age severity rural chronic waiting_time =
     [real_of_int age, real_of_int severity, real_of_int rural, real_of_int chronic, waiting_time]"

text \<open>The local \<open>raw_score\<close> of \<open>predict\<close> just before the clamp (lines 108 to 116).\<close>

definition raw_score :: "model \<Rightarrow> int \<Rightarrow> int \<Rightarrow> int \<Rightarrow> int \<Rightarrow> real \<Rightarrow> real" where
  "raw_score m age severity rural chronic waiting_time =
     (let features = [feature_row age severity rural chronic waiting_time];
          raw = hd (model_predict m features)
      in if rural = 1 then raw + RURAL_FAIRNESS_UPLIFT else raw)"

definition predict :: "predictor \<Rightarrow> int \<Rightarrow> int \<Rightarrow> int \<Rightarrow> int \<Rightarrow> real \<Rightarrow> error + prediction" where
  "predict self age severity rural chronic waiting_time =
     (if \<not> is_loaded self then Inl (Exception ''Model not loaded'')
      else case model self of
        None \<Rightarrow> Inl (AttributeError ''predict'')
      | Some m \<Rightarrow>
          (let score = py_int (np_clip1 (raw_score m age severity rural chronic waiting_time) 0 100)
           in Inr \<lparr>priority_score = score,
                   reason = generate_explanation age severity rural chronic waiting_time score\<rparr>))"

definition get_feature_importance :: "predictor \<Rightarrow> (string \<times> real) list option" where
  "get_feature_importance self =
     (if \<not> is_loaded self then None
      else case model self of
        None \<Rightarrow> None
      | Some m \<Rightarrow> (case feature_importances m of
                     None \<Rightarrow> None
                   | Some imps \<Rightarrow> Some (zip (feature_names self) imps)))"

section \<open>External libraries as parameters\<close>

text \<open>
  joblib, the file system, scikit-learn and XGBoost are not code of the repository. They
  are parameters of the model: a record of operations, each returning the exception it
  raises as \<open>Inl\<close>. The file system \<open>'fs\<close> is threaded through every operation that can
  write to it.
\<close>

type_synonym split_result = "real list list \<times> real list list \<times> real list \<times> real list"

record 'fs library =
  joblib_load :: "string \<Rightarrow> 'fs \<Rightarrow> error + model"
  joblib_dump :: "model \<Rightarrow> string \<Rightarrow> 'fs \<Rightarrow> (error + unit) \<times> 'fs"
  os_makedirs :: "string \<Rightarrow> 'fs \<Rightarrow> (error + unit) \<times> 'fs"
  os_path_dirname :: "string \<Rightarrow> string"
  train_test_split :: "real list list \<Rightarrow> real list \<Rightarrow> error + split_result"
  xgb_fit :: "real list list \<Rightarrow> real list \<Rightarrow> real list list \<Rightarrow> real list \<Rightarrow> error + model"
  mean_squared_error :: "real list \<Rightarrow> real list \<Rightarrow> error + real"
  r2_score :: "real list \<Rightarrow> real list \<Rightarrow> error + real"

subsection \<open>Loading and saving (model/predictor.py)\<close>

definition load_model :: "'fs library \<Rightarrow> predictor \<Rightarrow> string \<Rightarrow> 'fs \<Rightarrow> (error + unit) \<times> predictor \<times> 'fs" where
  "load_model L self model_path fs =
     (case joblib_load L model_path fs of
        Inr m \<Rightarrow> (Inr (), self\<lparr>model := Some m, is_loaded := True\<rparr>, fs)
      | Inl e \<Rightarrow> (Inl (Exception (''Failed to load model: '' @ error_str e)),
                  self\<lparr>is_loaded := False\<rparr>, fs))"

definition save_model :: "'fs library \<Rightarrow> predictor \<Rightarrow> string \<Rightarrow> 'fs \<Rightarrow> (error + unit) \<times> 'fs" where
  "save_model L self model_path fs =
     (case model self of
        None \<Rightarrow> (Inr (), fs)
      | Some m \<Rightarrow> joblib_dump L m model_path fs)"

section \<open>Synthetic data (model/trainer.py)\<close>

subsection \<open>The seeded generator\<close>

text \<open>
  \<open>np.random\<close> is a parameter as well: a generator state \<open>'g\<close>, the state after
  \<open>np.random.seed\<close>, and one-variate samplers. An array draw of size \<open>n\<close> makes \<open>n\<close>
  successive draws, so its length is \<open>n\<close> by construction.
\<close>

record 'g np_random =
  random_seed :: "nat \<Rightarrow> 'g"
  standard_normal :: "'g \<Rightarrow> real \<times> 'g"
  standard_exponential :: "'g \<Rightarrow> real \<times> 'g"
  bernoulli :: "real \<Rightarrow> 'g \<Rightarrow> int \<times> 'g"

fun draws :: "('g \<Rightarrow> 'a \<times> 'g) \<Rightarrow> nat \<Rightarrow> 'g \<Rightarrow> 'a list \<times> 'g" where
  "draws d 0 g = ([], g)"
| "draws d (Suc n) g =
     (case d g of (x, g1) \<Rightarrow> (case draws d n g1 of (xs, g2) \<Rightarrow> (x # xs, g2)))"

fun draws_each :: "('p \<Rightarrow> 'g \<Rightarrow> 'a \<times> 'g) \<Rightarrow> 'p list \<Rightarrow> 'g \<Rightarrow> 'a list \<times> 'g" where
  "draws_each d [] g = ([], g)"
| "draws_each d (p # ps) g =
     (case d p g of (x, g1) \<Rightarrow> (case draws_each d ps g1 of (xs, g2) \<Rightarrow> (x # xs, g2)))"

definition random_normal :: "'g np_random \<Rightarrow> real \<Rightarrow> real \<Rightarrow> nat \<Rightarrow> 'g \<Rightarrow> real list \<times> 'g" where
  "random_normal R loc scale n g =
     (case draws (standard_normal R) n g of (zs, g1) \<Rightarrow> (map (\<lambda>z. loc + scale * z) zs, g1))"

definition random_exponential :: "'g np_random \<Rightarrow> real \<Rightarrow> nat \<Rightarrow> 'g \<Rightarrow> real list \<times> 'g" where
  "random_exponential R scale n g =
     (case draws (standard_exponential R) n g of (zs, g1) \<Rightarrow> (map (\<lambda>z. scale * z) zs, g1))"

definition random_binomial :: "'g np_random \<Rightarrow> real \<Rightarrow> nat \<Rightarrow> 'g \<Rightarrow> int list \<times> 'g" where
  "random_binomial R p n g = draws (bernoulli R p) n g"

definition random_binomial_each :: "'g np_random \<Rightarrow> real list \<Rightarrow> 'g \<Rightarrow> int list \<times> 'g" where
  "random_binomial_each R ps g = draws_each (bernoulli R) ps g"

subsection \<open>Array primitives\<close>

definition np_clip :: "real list \<Rightarrow> real \<Rightarrow> real \<Rightarrow> real list" where
  "np_clip xs lo hi = map (\<lambda>x. np_clip1 x lo hi) xs"

definition astype_int :: "real list \<Rightarrow> int list" where
  "astype_int xs = map py_int xs"

text \<open>Element-wise addition of two one-dimensional arrays, with numpy's broadcasting.\<close>

definition np_add :: "real list \<Rightarrow> real list \<Rightarrow> error + real list" where
  "np_add xs ys =
     (if length xs = length ys then Inr (map2 (+) xs ys)
      else if length xs = 1 then Inr (map (\<lambda>y. hd xs + y) ys)
      else if length ys = 1 then Inr (map (\<lambda>x. x + hd ys) xs)
      else Inl (ValueError ''operands could not be broadcast together''))"

fun np_min :: "real list \<Rightarrow> error + real" where
  "np_min [] = Inl (ValueError ''zero-size array to reduction operation minimum which has no identity'')"
| "np_min (x # xs) = Inr (fold min xs x)"

fun np_max :: "real list \<Rightarrow> error + real" where
  "np_max [] = Inl (ValueError ''zero-size array to reduction operation maximum which has no identity'')"
| "np_max (x # xs) = Inr (fold max xs x)"

definition column_stack :: "int list \<Rightarrow> int list \<Rightarrow> int list \<Rightarrow> int list \<Rightarrow> real list \<Rightarrow> error + real list list" where
  "column_stack a s r c w =
     (if length s = length a \<and> length r = length a \<and> length c = length a \<and> length w = length a
      then Inr (map (\<lambda>i. feature_row (a ! i) (s ! i) (r ! i) (c ! i) (w ! i)) [0..<length a])
      else Inl (ValueError ''all the input array dimensions except for the concatenation axis must match exactly''))"

subsection \<open>The ground-truth formula\<close>

definition compute_priority_score ::
  "'g np_random \<Rightarrow> int list \<Rightarrow> int list \<Rightarrow> int list \<Rightarrow> int list \<Rightarrow> real list \<Rightarrow> 'g
     \<Rightarrow> error + (real list \<times> 'g)" where
  "compute_priority_score R age severity rural chronic waiting_time g =
     (let severity_score = map (\<lambda>s. real_of_int s / 10 * 40) severity;
          age_score = map (\<lambda>a. if a \<ge> 65 then 20 else if a \<ge> 50 then 10 else real_of_int a / 10) age;
          chronic_score = map (\<lambda>c. real_of_int (c * 15)) chronic;
          rural_score = map (\<lambda>r. real_of_int (r * 15)) rural;
          waiting_score = map (\<lambda>w. min (w / 60) 1 * 10) waiting_time
      in case np_add severity_score age_score of Inl e \<Rightarrow> Inl e | Inr t1 \<Rightarrow>
         (case np_add t1 chronic_score of Inl e \<Rightarrow> Inl e | Inr t2 \<Rightarrow>
         (case np_add t2 rural_score of Inl e \<Rightarrow> Inl e | Inr t3 \<Rightarrow>
         (case np_add t3 waiting_score of Inl e \<Rightarrow> Inl e | Inr total_score \<Rightarrow>
         (case random_normal R 0 3 (length total_score) g of (noise, g1) \<Rightarrow>
         (case np_add total_score noise of Inl e \<Rightarrow> Inl e | Inr noisy \<Rightarrow>
            Inr (np_clip noisy 0 100, g1)))))))"

subsection \<open>The synthesizer\<close>

text \<open>
  The result carries the two arrays the function returns and the label range that its
  last \<open>print\<close> formats from \<open>y.min()\<close> and \<open>y.max()\<close>.
\<close>

record training_data =
  td_X :: "real list list"
  td_y :: "real list"
  td_target_range :: "real \<times> real"

definition generate_training_data :: "'g np_random \<Rightarrow> nat \<Rightarrow> error + training_data" where
  "generate_training_data R n_samples =
     (let g0 = random_seed R 42 in
     (case random_normal R 45 20 n_samples g0 of (age_raw, g1) \<Rightarrow>
     (let age = astype_int (np_clip age_raw 0 100) in
     (case random_exponential R 3 n_samples g1 of (sev_raw, g2) \<Rightarrow>
     (let severity = astype_int (np_clip (map (\<lambda>x. x + 1) sev_raw) 1 10) in
     (case random_binomial R 0.3 n_samples g2 of (rural, g3) \<Rightarrow>
     (let chronic_base_prob = 0.15;
          chronic_age_factor = map (\<lambda>a. real_of_int a / 100 * 0.3) age in
     (case random_binomial_each R
             (np_clip (map (\<lambda>f. chronic_base_prob + f) chronic_age_factor) 0 0.8) g3
        of (chronic, g4) \<Rightarrow>
     (case random_exponential R 20 n_samples g4 of (wait_raw, g5) \<Rightarrow>
     (let waiting_time = np_clip wait_raw 0 120 in
     (case column_stack age severity rural chronic waiting_time of
        Inl e \<Rightarrow> Inl e
      | Inr X \<Rightarrow>
     (case compute_priority_score R age severity rural chronic waiting_time g5 of
        Inl e \<Rightarrow> Inl e
      | Inr (y, g6) \<Rightarrow>
     (case np_min y of
        Inl e \<Rightarrow> Inl e
      | Inr lo \<Rightarrow>
     (case np_max y of
        Inl e \<Rightarrow> Inl e
      | Inr hi \<Rightarrow> Inr \<lparr>td_X = X, td_y = y, td_target_range = (lo, hi)\<rparr>))))))))))))))"

section \<open>Training (model/trainer.py)\<close>

record metrics =
  mse :: real
  r2 :: real
  feature_importance :: "(string \<times> real) list"

text \<open>
  \<open>train_model\<close> mutates the predictor it is given and writes the model file. The
  model returns the exception or the metrics, the predictor as the call leaves it, and
  the file system. Every step before \<open>predictor.model = model\<close> that raises leaves both
  untouched; the directory creation and the save come after the two assignments.
\<close>

definition train_model ::
  "'fs library \<Rightarrow> predictor \<Rightarrow> real list list \<Rightarrow> real list \<Rightarrow> string \<Rightarrow> 'fs
     \<Rightarrow> (error + metrics) \<times> predictor \<times> 'fs" where
  "train_model L predictor X y model_path fs =
     (case train_test_split L X y of
        Inl e \<Rightarrow> (Inl e, predictor, fs)
      | Inr (X_train, X_test, y_train, y_test) \<Rightarrow>
     (case xgb_fit L X_train y_train X_test y_test of
        Inl e \<Rightarrow> (Inl e, predictor, fs)
      | Inr m \<Rightarrow>
     (let y_pred = model_predict m X_test in
      case mean_squared_error L y_test y_pred of
        Inl e \<Rightarrow> (Inl e, predictor, fs)
      | Inr mse_v \<Rightarrow>
     (case r2_score L y_test y_pred of
        Inl e \<Rightarrow> (Inl e, predictor, fs)
      | Inr r2_v \<Rightarrow>
     (case feature_importances m of
        None \<Rightarrow> (Inl (AttributeError ''feature_importances_''), predictor, fs)
      | Some importances \<Rightarrow>
     (let predictor1 = predictor\<lparr>model := Some m, is_loaded := True\<rparr> in
      case os_makedirs L (os_path_dirname L model_path) fs of
        (Inl e, fs1) \<Rightarrow> (Inl e, predictor1, fs1)
      | (Inr u, fs1) \<Rightarrow>
     (case save_model L predictor1 model_path fs1 of
        (Inl e, fs2) \<Rightarrow> (Inl e, predictor1, fs2)
      | (Inr u, fs2) \<Rightarrow>
          (Inr \<lparr>mse = mse_v, r2 = r2_v,
                feature_importance = zip FEATURE_NAMES importances\<rparr>,
           predictor1, fs2))))))))"

section \<open>The service's model swap (main.py)\<close>

text \<open>
  The module-level \<open>predictor\<close> is \<open>None\<close> until startup. \<open>retrain_model\<close> first
  rebinds it to a fresh \<open>PriorityPredictor()\<close>, then generates data and trains; any
  exception becomes an \<open>HTTPException\<close> with status 500. The path of the model file is
  derived from the location of \<open>main.py\<close> and is a parameter here.
\<close>

definition retrain_model ::
  "'fs library \<Rightarrow> 'g np_random \<Rightarrow> string \<Rightarrow> predictor option \<Rightarrow> 'fs
     \<Rightarrow> (error + string) \<times> predictor option \<times> 'fs" where
  "retrain_model L R model_path global_predictor fs =
     (let predictor = init_predictor in
      case generate_training_data R 5000 of
        Inl e \<Rightarrow> (Inl (HTTPException 500 (''Retraining failed: '' @ error_str e)), Some predictor, fs)
      | Inr d \<Rightarrow>
     (case train_model L predictor (td_X d) (td_y d) model_path fs of
        (Inl e, predictor1, fs1) \<Rightarrow>
          (Inl (HTTPException 500 (''Retraining failed: '' @ error_str e)), Some predictor1, fs1)
      | (Inr ms, predictor1, fs1) \<Rightarrow>
          (Inr ''Model retrained successfully'', Some predictor1, fs1)))"

subsection \<open>The engine as a state machine\<close>

datatype engine_state = Unloaded | Loaded

definition engine_state_of :: "predictor \<Rightarrow> engine_state" where
  "engine_state_of p = (if is_loaded p then Loaded else Unloaded)"

text \<open>The operations a caller can run on one predictor object.\<close>

datatype engine_op =
    OpLoad string
  | OpSave string
  | OpPredict int int int int real
  | OpImportance
  | OpTrain "real list list" "real list" string

fun is_load :: "engine_op \<Rightarrow> bool" where
  "is_load (OpLoad path) = True"
| "is_load other = False"

text \<open>One operation: whether it raised, the predictor afterwards, the file system afterwards.\<close>

fun engine_step :: "'fs library \<Rightarrow> predictor \<times> 'fs \<Rightarrow> engine_op \<Rightarrow> bool \<times> predictor \<times> 'fs" where
  "engine_step L (p, fs) (OpLoad path) =
     (case load_model L p path fs of (r, p1, fs1) \<Rightarrow> (isl r, p1, fs1))"
| "engine_step L (p, fs) (OpSave path) =
     (case save_model L p path fs of (r, fs1) \<Rightarrow> (isl r, p, fs1))"
| "engine_step L (p, fs) (OpPredict age severity rural chronic waiting_time) =
     (isl (predict p age severity rural chronic waiting_time), p, fs)"
| "engine_step L (p, fs) OpImportance = (False, p, fs)"
| "engine_step L (p, fs) (OpTrain X y path) =
     (case train_model L p X y path fs of (r, p1, fs1) \<Rightarrow> (isl r, p1, fs1))"

section \<open>Reference readings and sample instances\<close>

text \<open>The five factor buckets in the words of the specification.\<close>

definition severity_bucket :: "int \<Rightarrow> string list" where
  "severity_bucket severity =
     (if severity \<ge> 8 then [''High severity'']
      else if severity \<ge> 5 then [''Moderate severity'']
      else [''Low severity''])"

definition age_bucket :: "int \<Rightarrow> string list" where
  "age_bucket age =
     (if age \<ge> 65 then [''elderly patient'']
      else if age \<ge> 50 \<and> age < 65 then [''middle-aged patient'']
      else [])"

definition rural_bucket :: "int \<Rightarrow> string list" where
  "rural_bucket rural =
     (if rural = 1 then [''rural location (fairness uplift applied)''] else [])"

definition chronic_bucket :: "int \<Rightarrow> string list" where
  "chronic_bucket chronic = (if chronic = 1 then [''chronic illness''] else [])"

definition wait_bucket :: "real \<Rightarrow> string list" where
  "wait_bucket waiting_time =
     (if waiting_time \<ge> 60 then [''long wait time'']
      else if waiting_time \<ge> 30 then [''moderate wait time'']
      else [])"

text \<open>The label formula in the words of the specification, before noise and clamping.\<close>

definition spec_label :: "int \<Rightarrow> int \<Rightarrow> int \<Rightarrow> int \<Rightarrow> real \<Rightarrow> real" where
  "spec_label age severity rural chronic waiting_time =
     (real_of_int severity / 10) * 40
     + (if age \<ge> 65 then 20 else if 50 \<le> age \<and> age < 65 then 10 else real_of_int age / 10)
     + (if chronic = 1 then 15 else 0)
     + (if rural = 1 then 15 else 0)
     + min (waiting_time / 60) 1 * 10"

definition is_flag :: "int \<Rightarrow> bool" where
  "is_flag b = (b = 0 \<or> b = 1)"

text \<open>
  The expression \<open>compute_priority_score\<close> evaluates at one row of its input arrays,
  before the noise is added.
\<close>

definition label_at :: "int \<Rightarrow> int \<Rightarrow> int \<Rightarrow> int \<Rightarrow> real \<Rightarrow> real" where
  "label_at a s r c w =
     real_of_int s / 10 * 40
     + (if a \<ge> 65 then 20 else if a \<ge> 50 then 10 else real_of_int a / 10)
     + real_of_int (c * 15) + real_of_int (r * 15) + min (w / 60) 1 * 10"

text \<open>
  Sample models: one that ignores its input, and a linear one that, like the label
  formula it would be fitted to, gives weight to severity, rural and chronic.
\<close>

definition zero_model :: model where
  "zero_model = Model (\<lambda>row. 0) (Some [0.2, 0.2, 0.2, 0.2, 0.2])"

definition sample_model :: model where
  "sample_model =
     Model (\<lambda>row. 20 + 4 * (row ! 1) + 15 * (row ! 2) + 15 * (row ! 3)) (Some [0, 0.4, 0.3, 0.3, 0])"

definition loaded_with :: "model \<Rightarrow> predictor" where
  "loaded_with m = \<lparr>model = Some m, is_loaded = True, feature_names = FEATURE_NAMES\<rparr>"

text \<open>
  A sample library over a file system that is a list of (path, model) entries. Its
  splitter has the size check of scikit-learn's \<open>train_test_split\<close> with
  \<open>test_size=0.2\<close> (the test part has \<open>ceil(0.2 * n)\<close> rows and an empty training part
  is a \<open>ValueError\<close>) and does not shuffle; its fit is a constant model.
\<close>

definition sample_split :: "real list list \<Rightarrow> real list \<Rightarrow> error + split_result" where
  "sample_split X y =
     (if length X \<noteq> length y
      then Inl (ValueError ''Found input variables with inconsistent numbers of samples'')
      else let n = length X; n_test = nat \<lceil>0.2 * real n\<rceil>; n_train = n - n_test
           in if n_train = 0 then Inl (ValueError ''the resulting train set will be empty'')
              else Inr (take n_train X, drop n_train X, take n_train y, drop n_train y))"

definition sample_library :: "(string \<times> model) list library" where
  "sample_library =
     \<lparr>joblib_load = (\<lambda>path fs. case map_of fs path of
                        None \<Rightarrow> Inl (OSError ''No such file or directory'')
                      | Some m \<Rightarrow> Inr m),
      joblib_dump = (\<lambda>m path fs. (Inr (), (path, m) # fs)),
      os_makedirs = (\<lambda>dir fs. (Inr (), fs)),
      os_path_dirname = (\<lambda>path. ''model''),
      train_test_split = sample_split,
      xgb_fit = (\<lambda>X_train y_train X_test y_test. Inr zero_model),
      mean_squared_error = (\<lambda>y_true y_pred. Inr 0),
      r2_score = (\<lambda>y_true y_pred. Inr 1)\<rparr>"

text \<open>The same library with a regressor whose fit always raises.\<close>

definition failing_fit_library :: "(string \<times> model) list library" where
  "failing_fit_library =
     sample_library\<lparr>xgb_fit := (\<lambda>X_train y_train X_test y_test. Inl (ValueError ''fit failed''))\<rparr>"

text \<open>A sample generator: the state counts the draws and every variate is 0.\<close>

definition sample_random :: "nat np_random" where
  "sample_random =
     \<lparr>random_seed = (\<lambda>s. 0),
      standard_normal = (\<lambda>g. (0, Suc g)),
      standard_exponential = (\<lambda>g. (0, Suc g)),
      bernoulli = (\<lambda>p g. (0, Suc g))\<rparr>"

section \<open>Properties of the scorer\<close>

subsection \<open>Helper facts\<close>

lemma raw_score_unfold:
  "raw_score m age severity rural chronic wt =
     predict_row m (feature_row age severity rural chronic wt) + (if rural = 1 then 10 else 0)"
  by (simp add: raw_score_def model_predict_def RURAL_FAIRNESS_UPLIFT_def)

lemma py_int_clip_range: "0 \<le> py_int (np_clip1 x 0 100) \<and> py_int (np_clip1 x 0 100) \<le> 100"
  by (auto simp: py_int_def np_clip1_def min_def max_def floor_le_iff)

lemma explanation_factors_buckets:
  "explanation_factors age severity rural chronic wt =
     severity_bucket severity @ age_bucket age @ rural_bucket rural
       @ chronic_bucket chronic @ wait_bucket wt"
  by (simp add: explanation_factors_def severity_bucket_def age_bucket_def rural_bucket_def
      chronic_bucket_def wait_bucket_def)

lemma join_factors_single: "join_factors [a] = a"
  by (simp add: join_factors_def)

lemma join_factors_pair: "join_factors [a, b] = a @ '', and '' @ b"
  by (simp add: join_factors_def)

lemma join_factors_triple: "join_factors [a, b, c] = a @ '', '' @ b @ '', and '' @ c"
  by (simp add: join_factors_def)

lemma join_factors_many:
  "2 \<le> length fs \<Longrightarrow> join_factors fs = join_str '', '' (butlast fs) @ '', and '' @ last fs"
  by (simp add: join_factors_def)

lemma predict_loaded:
  "is_loaded self \<Longrightarrow> model self = Some m \<Longrightarrow>
     predict self age severity rural chronic wt =
       Inr \<lparr>priority_score = py_int (np_clip1 (raw_score m age severity rural chronic wt) 0 100),
            reason = generate_explanation age severity rural chronic wt
                       (py_int (np_clip1 (raw_score m age severity rural chronic wt) 0 100))\<rparr>"
  by (simp add: predict_def Let_def)

lemma factors_high_example:
  "join_factors (explanation_factors 70 9 1 1 70) =
     ''High severity, elderly patient, rural location (fairness uplift applied), chronic illness, and long wait time''"
  by (simp add: join_factors_def explanation_factors_def)

lemma factors_low_example: "join_factors (explanation_factors 25 2 0 0 5) = ''Low severity''"
  by (simp add: join_factors_def explanation_factors_def)

lemma sample_model_high_example:
  "predict (loaded_with sample_model) 70 9 1 1 70 =
     Inr \<lparr>priority_score = 96,
          reason = ''HIGH PRIORITY: High severity, elderly patient, rural location (fairness uplift applied), chronic illness, and long wait time''\<rparr>"
  by (simp add: predict_def loaded_with_def raw_score_unfold sample_model_def feature_row_def
      np_clip1_def py_int_def generate_explanation_def factors_high_example priority_level_def)

lemma sample_model_low_example:
  "predict (loaded_with sample_model) 25 2 0 0 5 =
     Inr \<lparr>priority_score = 28, reason = ''LOW PRIORITY: Low severity''\<rparr>"
  by (simp add: predict_def loaded_with_def raw_score_unfold sample_model_def feature_row_def
      np_clip1_def py_int_def generate_explanation_def factors_low_example priority_level_def)

lemma zero_model_high_example:
  "predict (loaded_with zero_model) 70 9 1 1 70 =
     Inr \<lparr>priority_score = 10,
          reason = ''LOW PRIORITY: High severity, elderly patient, rural location (fairness uplift applied), chronic illness, and long wait time''\<rparr>"
  by (simp add: predict_def loaded_with_def raw_score_unfold zero_model_def feature_row_def
      np_clip1_def py_int_def generate_explanation_def factors_high_example priority_level_def)

subsection \<open>Fairness uplift\<close>

text \<open>
  Claim C1, as stated, fails: the model is evaluated on the feature row, and the row
  contains the rural flag, so the two raw predictions need not agree. With the sample
  model the pre-clamp scores are 65 and 40: they differ by 25, not by 10.
\<close>

theorem rural_uplift_not_exactly_ten:
  "raw_score sample_model 30 5 1 0 10 \<noteq> raw_score sample_model 30 5 0 0 10 + 10"
  by (simp add: raw_score_unfold sample_model_def feature_row_def)

text \<open>
  Claim C1, amended: for two feature vectors that differ only in the rural flag, the
  pre-clamp score of the rural one exceeds the other's by 10 plus the difference of the
  model's own raw predictions on the two rows; the uplift step itself adds exactly 10 to
  the model's prediction on the rural row and nothing on the other.
\<close>

theorem rural_uplift_relative_to_model:
  "raw_score m age severity 1 chronic wt - raw_score m age severity 0 chronic wt =
     10 + (predict_row m (feature_row age severity 1 chronic wt)
           - predict_row m (feature_row age severity 0 chronic wt))
   \<and> raw_score m age severity 1 chronic wt = predict_row m (feature_row age severity 1 chronic wt) + 10
   \<and> raw_score m age severity 0 chronic wt = predict_row m (feature_row age severity 0 chronic wt)"
  by (simp add: raw_score_unfold)

subsection \<open>Clamp invariant\<close>

text \<open>
  Claim C2: for every feature vector and every loaded model, \<open>predict\<close> returns a
  result whose priority score is an integer between 0 and 100.
\<close>

theorem predict_score_in_range:
  "is_loaded self \<Longrightarrow> model self = Some m \<Longrightarrow>
     \<exists>res. predict self age severity rural chronic wt = Inr res
           \<and> 0 \<le> priority_score res \<and> priority_score res \<le> 100"
  using py_int_clip_range by (simp add: predict_def Let_def)

theorem predict_score_in_range_witness:
  "is_loaded (loaded_with sample_model) \<and> model (loaded_with sample_model) = Some sample_model
   \<and> (\<exists>res. predict (loaded_with sample_model) 70 9 1 1 70 = Inr res
           \<and> 0 \<le> priority_score res \<and> priority_score res \<le> 100)"
proof -
  have h1: "is_loaded (loaded_with sample_model)"
    by (simp add: loaded_with_def)
  have h2: "model (loaded_with sample_model) = Some sample_model"
    by (simp add: loaded_with_def)
  show ?thesis
    using h1 h2 predict_score_in_range [OF h1 h2, of 70 9 1 1 70] by blast
qed

subsection \<open>Joining the factors\<close>

text \<open>
  Claim C3 at a feature vector with exactly two factors (severity 2, age 70, not rural,
  not chronic, waiting 5 minutes): the branch for more than one factor always writes
  \<open>, and\<close> before the last item, so two factors are joined with a comma as well.
\<close>

theorem two_factors_joined_with_comma:
  "join_factors (explanation_factors 70 2 0 0 5) = ''Low severity, and elderly patient''
   \<and> generate_explanation 70 2 0 0 5 10 = ''LOW PRIORITY: Low severity, and elderly patient''"
  by (simp add: generate_explanation_def priority_level_def join_factors_def
      explanation_factors_def)

subsection \<open>Explanation\<close>

text \<open>
  Claim C6, as stated, fails: the prefix of the reason is chosen by the clamped score,
  and the score depends on the model. With a loaded model that predicts 0 the features
  severity 9, age 70, rural, chronic, waiting 70 get score 10 and a reason that starts
  with \<open>LOW PRIORITY\<close>.
\<close>

theorem high_example_reason_depends_on_score:
  "predict (loaded_with zero_model) 70 9 1 1 70 =
     Inr \<lparr>priority_score = 10,
          reason = ''LOW PRIORITY: High severity, elderly patient, rural location (fairness uplift applied), chronic illness, and long wait time''\<rparr>
   \<and> generate_explanation 70 9 1 1 70 10 \<noteq>
       ''HIGH PRIORITY: High severity, elderly patient, rural location (fairness uplift applied), chronic illness, and long wait time''"
  by (simp add: zero_model_high_example generate_explanation_def priority_level_def)

text \<open>
  Claim C6, amended: the factor list is built from the input features alone, in the
  order severity bucket, age bucket, rural, chronic, wait-time bucket. For severity 9,
  age 70, rural, chronic, waiting 70 the reason is the \<open>HIGH PRIORITY\<close> sentence
  whenever the returned score is at least 80, and for severity 2, age 25, not rural, not
  chronic, waiting 5 the factor list is exactly \<open>Low severity\<close>.
\<close>

theorem explanation_precedence:
  "explanation_factors age severity rural chronic wt =
     severity_bucket severity @ age_bucket age @ rural_bucket rural
       @ chronic_bucket chronic @ wait_bucket wt
   \<and> (predict self 70 9 1 1 70 = Inr res \<and> 80 \<le> priority_score res \<longrightarrow>
        reason res = ''HIGH PRIORITY: High severity, elderly patient, rural location (fairness uplift applied), chronic illness, and long wait time'')
   \<and> (predict self 25 2 0 0 5 = Inr res2 \<longrightarrow>
        reason res2 = priority_level (priority_score res2) @ '': Low severity'')
   \<and> join_factors (explanation_factors 25 2 0 0 5) = ''Low severity''"
proof (intro conjI impI)
  show "explanation_factors age severity rural chronic wt =
     severity_bucket severity @ age_bucket age @ rural_bucket rural
       @ chronic_bucket chronic @ wait_bucket wt"
    by (rule explanation_factors_buckets)
next
  assume a: "predict self 70 9 1 1 70 = Inr res \<and> 80 \<le> priority_score res"
  then have "reason res = generate_explanation 70 9 1 1 70 (priority_score res)"
    by (auto simp: predict_def Let_def split: if_splits option.splits)
  with a show "reason res = ''HIGH PRIORITY: High severity, elderly patient, rural location (fairness uplift applied), chronic illness, and long wait time''"
    by (simp add: generate_explanation_def factors_high_example priority_level_def)
next
  assume "predict self 25 2 0 0 5 = Inr res2"
  then have "reason res2 = generate_explanation 25 2 0 0 5 (priority_score res2)"
    by (auto simp: predict_def Let_def split: if_splits option.splits)
  then show "reason res2 = priority_level (priority_score res2) @ '': Low severity''"
    by (simp add: generate_explanation_def factors_low_example)
next
  show "join_factors (explanation_factors 25 2 0 0 5) = ''Low severity''"
    by (rule factors_low_example)
qed

theorem explanation_precedence_witness:
  "predict (loaded_with sample_model) 70 9 1 1 70 =
     Inr \<lparr>priority_score = 96,
          reason = ''HIGH PRIORITY: High severity, elderly patient, rural location (fairness uplift applied), chronic illness, and long wait time''\<rparr>
   \<and> (80::int) \<le> 96
   \<and> predict (loaded_with sample_model) 25 2 0 0 5 =
     Inr \<lparr>priority_score = 28, reason = ''LOW PRIORITY: Low severity''\<rparr>
   \<and> explanation_factors 70 9 1 1 70 =
       severity_bucket 9 @ age_bucket 70 @ rural_bucket 1 @ chronic_bucket 1 @ wait_bucket 70"
  using explanation_precedence [of 70 9 1 1 70 "loaded_with sample_model"
      "\<lparr>priority_score = 96, reason = ''HIGH PRIORITY: High severity, elderly patient, rural location (fairness uplift applied), chronic illness, and long wait time''\<rparr>"
      "\<lparr>priority_score = 28, reason = ''LOW PRIORITY: Low severity''\<rparr>"]
    sample_model_high_example sample_model_low_example
  by simp

subsection \<open>Scoring without a model\<close>

text \<open>
  Claim C7: when no model is loaded, \<open>predict\<close> raises \<open>Exception("Model not loaded")\<close>
  for every feature vector and returns no score; with a loaded model it returns a result.
\<close>

theorem predict_model_not_loaded:
  "(\<not> is_loaded self \<longrightarrow>
      predict self age severity rural chronic wt = Inl (Exception ''Model not loaded''))
   \<and> (is_loaded self \<and> model self = Some m \<longrightarrow>
      (\<exists>res. predict self age severity rural chronic wt = Inr res))"
  by (simp add: predict_def Let_def)

theorem predict_model_not_loaded_witness:
  "\<not> is_loaded init_predictor
   \<and> predict init_predictor 70 9 1 1 70 = Inl (Exception ''Model not loaded'')
   \<and> is_loaded (loaded_with sample_model) \<and> model (loaded_with sample_model) = Some sample_model
   \<and> (\<exists>res. predict (loaded_with sample_model) 70 9 1 1 70 = Inr res)"
proof -
  have h0: "\<not> is_loaded init_predictor"
    by (simp add: init_predictor_def)
  have h1: "is_loaded (loaded_with sample_model) \<and> model (loaded_with sample_model) = Some sample_model"
    by (simp add: loaded_with_def)
  show ?thesis
    using h0 h1 predict_model_not_loaded [of init_predictor 70 9 1 1 70 sample_model]
      predict_model_not_loaded [of "loaded_with sample_model" 70 9 1 1 70 sample_model]
    by blast
qed

subsection \<open>Saving without a model\<close>

text \<open>
  Claim C10: \<open>save_model\<close> on a predictor whose model is \<open>None\<close> raises nothing and
  leaves the file system as it was, and it returns the same value as a save that wrote
  the file, so the return value does not tell the two apart.
\<close>

theorem save_model_none_is_silent:
  "model self = None \<Longrightarrow>
     save_model L self path fs = (Inr (), fs)
     \<and> (\<forall>other m fs1. model other = Some m \<and> joblib_dump L m path fs = (Inr (), fs1)
          \<longrightarrow> fst (save_model L other path fs) = fst (save_model L self path fs))"
  by (simp add: save_model_def)

theorem save_model_none_is_silent_witness:
  "model init_predictor = None
   \<and> save_model sample_library init_predictor ''model/trained_model.joblib'' [] = (Inr (), [])
   \<and> model (loaded_with zero_model) = Some zero_model
   \<and> joblib_dump sample_library zero_model ''model/trained_model.joblib'' []
       = (Inr (), [(''model/trained_model.joblib'', zero_model)])
   \<and> fst (save_model sample_library (loaded_with zero_model) ''model/trained_model.joblib'' [])
       = fst (save_model sample_library init_predictor ''model/trained_model.joblib'' [])"
proof -
  have h0: "model init_predictor = None"
    by (simp add: init_predictor_def)
  have h1: "model (loaded_with zero_model) = Some zero_model"
    by (simp add: loaded_with_def)
  have h2: "joblib_dump sample_library zero_model ''model/trained_model.joblib'' []
       = (Inr (), [(''model/trained_model.joblib'', zero_model)])"
    by (simp add: sample_library_def)
  show ?thesis
    using h0 h1 h2
      save_model_none_is_silent [OF h0, of sample_library "''model/trained_model.joblib''" "[]"]
    by blast
qed

section \<open>Properties of the synthesizer\<close>

subsection \<open>Helper facts\<close>

lemma length_draws: "length (fst (draws d n g)) = n"
  by (induction n arbitrary: g) (simp_all add: split_beta)

lemma length_draws_each: "length (fst (draws_each d ps g)) = length ps"
  by (induction ps arbitrary: g) (simp_all add: split_beta)

lemma length_random_normal: "length (fst (random_normal R loc scale n g)) = n"
  by (simp add: random_normal_def split_beta length_draws)

lemma length_random_exponential: "length (fst (random_exponential R scale n g)) = n"
  by (simp add: random_exponential_def split_beta length_draws)

lemma length_random_binomial: "length (fst (random_binomial R p n g)) = n"
  by (simp add: random_binomial_def length_draws)

lemma length_random_binomial_each: "length (fst (random_binomial_each R ps g)) = length ps"
  by (simp add: random_binomial_each_def length_draws_each)

lemma np_add_same_length: "length xs = length ys \<Longrightarrow> np_add xs ys = Inr (map2 (+) xs ys)"
  by (simp add: np_add_def)

lemma np_min_nonempty: "ys \<noteq> [] \<Longrightarrow> \<exists>lo. np_min ys = Inr lo"
  by (cases ys) simp_all

lemma np_max_nonempty: "ys \<noteq> [] \<Longrightarrow> \<exists>hi. np_max ys = Inr hi"
  by (cases ys) simp_all

lemma np_clip1_range: "lo \<le> hi \<Longrightarrow> lo \<le> np_clip1 x lo hi \<and> np_clip1 x lo hi \<le> hi"
  by (simp add: np_clip1_def)

text \<open>On arrays of one common length the function is the row formula plus noise, clipped.\<close>

lemma compute_priority_score_rows:
  assumes "length age = n" "length severity = n" "length rural = n" "length chronic = n"
    "length wt = n"
  shows "compute_priority_score R age severity rural chronic wt g =
     Inr (map (\<lambda>i. np_clip1 (label_at (age ! i) (severity ! i) (rural ! i) (chronic ! i) (wt ! i)
                              + fst (random_normal R 0 3 n g) ! i) 0 100) [0..<n],
          snd (random_normal R 0 3 n g))"
proof -
  obtain noise g1 where rn: "random_normal R 0 3 n g = (noise, g1)"
    by (cases "random_normal R 0 3 n g")
  have ln: "length noise = n"
    using length_random_normal [of R 0 3 n g] rn by simp
  show ?thesis
    using assms ln
    by (auto simp add: compute_priority_score_def Let_def np_add_same_length rn np_clip_def
        label_at_def intro!: nth_equalityI)
qed

lemma label_at_spec:
  "is_flag r \<Longrightarrow> is_flag c \<Longrightarrow> label_at a s r c w = spec_label a s r c w"
  by (auto simp: label_at_def spec_label_def is_flag_def)

lemma spec_label_wait_cap: "60 \<le> w \<Longrightarrow> spec_label a s r c w = spec_label a s r c 60"
  by (simp add: spec_label_def min_def)

text \<open>For a positive sample count the synthesizer returns arrays of that length.\<close>

lemma generate_training_data_positive:
  assumes "0 < n"
  shows "\<exists>d. generate_training_data R n = Inr d \<and> length (td_X d) = n \<and> length (td_y d) = n
           \<and> np_min (td_y d) = Inr (fst (td_target_range d))
           \<and> np_max (td_y d) = Inr (snd (td_target_range d))"
proof -
  define g0 where "g0 = random_seed R 42"
  define age where "age = astype_int (np_clip (fst (random_normal R 45 20 n g0)) 0 100)"
  define g1 where "g1 = snd (random_normal R 45 20 n g0)"
  define severity where
    "severity = astype_int (np_clip (map (\<lambda>x. x + 1) (fst (random_exponential R 3 n g1))) 1 10)"
  define g2 where "g2 = snd (random_exponential R 3 n g1)"
  define rural where "rural = fst (random_binomial R 0.3 n g2)"
  define g3 where "g3 = snd (random_binomial R 0.3 n g2)"
  define ps where
    "ps = np_clip (map (\<lambda>f. 0.15 + f) (map (\<lambda>a. real_of_int a / 100 * 0.3) age)) 0 0.8"
  define chronic where "chronic = fst (random_binomial_each R ps g3)"
  define g4 where "g4 = snd (random_binomial_each R ps g3)"
  define wt where "wt = np_clip (fst (random_exponential R 20 n g4)) 0 120"
  define g5 where "g5 = snd (random_exponential R 20 n g4)"
  have la: "length age = n"
    by (simp add: age_def astype_int_def np_clip_def length_random_normal)
  have ls: "length severity = n"
    by (simp add: severity_def astype_int_def np_clip_def length_random_exponential)
  have lr: "length rural = n"
    by (simp add: rural_def length_random_binomial)
  have lc: "length chronic = n"
    by (simp add: chronic_def ps_def length_random_binomial_each np_clip_def la)
  have lw: "length wt = n"
    by (simp add: wt_def np_clip_def length_random_exponential)
  obtain X where X: "column_stack age severity rural chronic wt = Inr X" "length X = n"
    by (simp add: column_stack_def la ls lr lc lw)
  obtain y g6 where y: "compute_priority_score R age severity rural chronic wt g5 = Inr (y, g6)"
    "length y = n"
    using compute_priority_score_rows [OF la ls lr lc lw, of R g5] by simp
  from y(2) assms have "y \<noteq> []" by auto
  then obtain lo hi where lh: "np_min y = Inr lo" "np_max y = Inr hi"
    using np_min_nonempty np_max_nonempty by blast
  have "generate_training_data R n = Inr \<lparr>td_X = X, td_y = y, td_target_range = (lo, hi)\<rparr>"
    unfolding generate_training_data_def Let_def split_beta
    using X(1) y(1) lh
    by (simp add: age_def g0_def g1_def severity_def g2_def rural_def g3_def ps_def chronic_def
        g4_def wt_def g5_def)
  with X(2) y(2) lh show ?thesis by simp
qed

subsection \<open>Generating no samples\<close>

text \<open>
  Claim C4 at \<open>n_samples = 0\<close>: every array is empty, and the last \<open>print\<close> formats
  \<open>y.min()\<close>, which numpy refuses on a zero-size array. The call raises \<open>ValueError\<close>
  instead of returning empty arrays, whatever the generator draws.
\<close>

theorem generate_training_data_zero_raises:
  "generate_training_data R 0 =
     Inl (ValueError ''zero-size array to reduction operation minimum which has no identity'')"
  by (simp add: generate_training_data_def Let_def random_normal_def random_exponential_def
      random_binomial_def random_binomial_each_def np_clip_def astype_int_def column_stack_def
      compute_priority_score_def np_add_def)

subsection \<open>The label formula\<close>

text \<open>
  Claim C5: on feature arrays of a common length whose rural and chronic entries are
  flags, every label is the specification's sum (40 times severity over 10, the age
  term, 15 for chronic, 15 for rural, 10 times the waiting time over 60 capped at 1)
  plus that row's noise, clamped to the interval from 0 to 100; a waiting time of 60
  minutes or more gives the same label as one of exactly 60.
\<close>

theorem compute_priority_score_formula:
  assumes "length age = n" "length severity = n" "length rural = n" "length chronic = n"
    "length wt = n"
    and "list_all is_flag rural" "list_all is_flag chronic"
  shows "\<exists>y g1. compute_priority_score R age severity rural chronic wt g = Inr (y, g1)
           \<and> length y = n
           \<and> (\<forall>i<n. y ! i = np_clip1 (spec_label (age ! i) (severity ! i) (rural ! i) (chronic ! i)
                                        (wt ! i) + fst (random_normal R 0 3 n g) ! i) 0 100
                    \<and> 0 \<le> y ! i \<and> y ! i \<le> 100
                    \<and> (60 \<le> wt ! i \<longrightarrow>
                         y ! i = np_clip1 (spec_label (age ! i) (severity ! i) (rural ! i)
                                            (chronic ! i) 60
                                           + fst (random_normal R 0 3 n g) ! i) 0 100))"
proof -
  let ?noise = "fst (random_normal R 0 3 n g)"
  let ?y = "map (\<lambda>i. np_clip1 (label_at (age ! i) (severity ! i) (rural ! i) (chronic ! i) (wt ! i)
                                  + ?noise ! i) 0 100) [0..<n]"
  have res: "compute_priority_score R age severity rural chronic wt g
               = Inr (?y, snd (random_normal R 0 3 n g))"
    by (rule compute_priority_score_rows [OF assms(1-5)])
  have row: "?y ! i = np_clip1 (spec_label (age ! i) (severity ! i) (rural ! i) (chronic ! i)
                                 (wt ! i) + ?noise ! i) 0 100" if "i < n" for i
    using that assms(3,4,6,7) by (simp add: list_all_length label_at_spec)
  have rng: "0 \<le> ?y ! i \<and> ?y ! i \<le> 100" if "i < n" for i
    using that np_clip1_range [of 0 100] by simp
  have cap: "?y ! i = np_clip1 (spec_label (age ! i) (severity ! i) (rural ! i) (chronic ! i) 60
                                 + ?noise ! i) 0 100" if "i < n" "60 \<le> wt ! i" for i
    using row [OF that(1)] spec_label_wait_cap [OF that(2)] by simp
  show ?thesis
    using res row rng cap by (intro exI [of _ ?y] exI [of _ "snd (random_normal R 0 3 n g)"]) simp
qed

theorem compute_priority_score_formula_witness:
  "length [70, 30 :: int] = 2 \<and> length [9, 2 :: int] = 2 \<and> length [1, 0 :: int] = 2
   \<and> length [70, 5 :: real] = 2 \<and> list_all is_flag [1, 0]
   \<and> compute_priority_score sample_random [70, 30] [9, 2] [1, 0] [1, 0] [70, 5] 0
       = Inr ([96, 71 / 6], 2)
   \<and> spec_label 70 9 1 1 70 = 96 \<and> spec_label 30 2 0 0 5 = 71 / 6
   \<and> spec_label 70 9 1 1 60 = 96"
proof -
  have h1: "length [70, 30 :: int] = 2" "length [9, 2 :: int] = 2" "length [1, 0 :: int] = 2"
    "length [70, 5 :: real] = 2"
    by simp_all
  have h2: "list_all is_flag [1, 0]"
    by (simp add: is_flag_def)
  have ev: "compute_priority_score sample_random [70, 30] [9, 2] [1, 0] [1, 0] [70, 5] 0
       = Inr ([96, 71 / 6], 2)"
    by (simp add: compute_priority_score_def Let_def np_add_def random_normal_def
        sample_random_def np_clip_def np_clip1_def numeral_2_eq_2)
  have sp: "spec_label 70 9 1 1 70 = 96 \<and> spec_label 30 2 0 0 5 = 71 / 6
      \<and> spec_label 70 9 1 1 60 = 96"
    by (simp add: spec_label_def)
  show ?thesis
    using h1 h2 ev sp
      compute_priority_score_formula [OF h1(1) h1(2) h1(3) h1(3) h1(4) h2 h2, of sample_random 0]
    by blast
qed

section \<open>Properties of training and of the model swap\<close>

subsection \<open>Helper facts\<close>

lemma train_model_keeps_loaded:
  "is_loaded p \<Longrightarrow> is_loaded (fst (snd (train_model L p X y path fs)))"
  by (simp add: train_model_def Let_def split: sum.splits prod.splits option.splits)

lemma train_model_success_loaded:
  "train_model L p X y path fs = (Inr ms, p1, fs1) \<Longrightarrow> is_loaded p1"
  by (auto simp add: train_model_def Let_def split: sum.splits prod.splits option.splits)

text \<open>A failed training either left the predictor untouched or had already installed the new model.\<close>

lemma train_model_failure_cases:
  "train_model L p X y path fs = (Inl e, p1, fs1) \<Longrightarrow> (p1 = p \<and> fs1 = fs) \<or> is_loaded p1"
  by (auto simp add: train_model_def Let_def split: sum.splits prod.splits option.splits)

lemma engine_step_keeps_loaded:
  assumes "is_loaded p" "engine_step L (p, fs) op = (failed, p1, fs1)" "\<not> (is_load op \<and> failed)"
  shows "is_loaded p1"
proof (cases op)
  case (OpLoad path)
  with assms show ?thesis
    by (auto simp: load_model_def split: sum.splits)
next
  case (OpTrain X y path)
  with assms train_model_keeps_loaded [of p L X y path fs] show ?thesis
    by (auto split: prod.splits)
qed (use assms in \<open>auto split: prod.splits\<close>)

lemma failed_load_unloads:
  "joblib_load L path fs = Inl e \<Longrightarrow>
     engine_step L (p, fs) (OpLoad path) = (True, p\<lparr>is_loaded := False\<rparr>, fs)"
  by (simp add: load_model_def)

lemma retrain_success_loaded:
  "retrain_model L R path g fs = (Inr msg, g1, fs1) \<Longrightarrow> \<exists>p1. g1 = Some p1 \<and> is_loaded p1"
  by (auto simp: retrain_model_def Let_def split: sum.splits prod.splits
      dest: train_model_success_loaded)

lemma retrain_fit_failure:
  assumes "generate_training_data R 5000 = Inr d"
    and "train_test_split L (td_X d) (td_y d) = Inr (X_train, X_test, y_train, y_test)"
    and "xgb_fit L X_train y_train X_test y_test = Inl e"
  shows "retrain_model L R path g fs =
           (Inl (HTTPException 500 (''Retraining failed: '' @ error_str e)), Some init_predictor, fs)"
  using assms by (simp add: retrain_model_def Let_def train_model_def)

lemma sample_split_5000:
  assumes "length X = 5000" "length y = 5000"
  shows "sample_split X y = Inr (take 4000 X, drop 4000 X, take 4000 y, drop 4000 y)"
  using assms by (simp add: sample_split_def Let_def)

lemma sample_retrain_succeeds:
  "retrain_model sample_library sample_random path g [] =
     (Inr ''Model retrained successfully'', Some (loaded_with zero_model), [(path, zero_model)])"
proof -
  obtain d where d: "generate_training_data sample_random 5000 = Inr d"
    "length (td_X d) = 5000" "length (td_y d) = 5000"
    using generate_training_data_positive [of 5000 sample_random] by auto
  have "train_model sample_library init_predictor (td_X d) (td_y d) path [] =
          (Inr \<lparr>mse = 0, r2 = 1,
                feature_importance = zip FEATURE_NAMES [0.2, 0.2, 0.2, 0.2, 0.2]\<rparr>,
           loaded_with zero_model, [(path, zero_model)])"
    using sample_split_5000 [OF d(2) d(3)]
    by (simp add: train_model_def sample_library_def Let_def save_model_def zero_model_def
        init_predictor_def loaded_with_def)
  with d(1) show ?thesis
    by (simp add: retrain_model_def Let_def)
qed

lemma sample_retrain_fit_failure:
  "\<exists>d. generate_training_data sample_random 5000 = Inr d
     \<and> train_test_split failing_fit_library (td_X d) (td_y d)
         = Inr (take 4000 (td_X d), drop 4000 (td_X d), take 4000 (td_y d), drop 4000 (td_y d))
     \<and> xgb_fit failing_fit_library (take 4000 (td_X d)) (take 4000 (td_y d))
         (drop 4000 (td_X d)) (drop 4000 (td_y d)) = Inl (ValueError ''fit failed'')"
proof -
  obtain d where d: "generate_training_data sample_random 5000 = Inr d"
    "length (td_X d) = 5000" "length (td_y d) = 5000"
    using generate_training_data_positive [of 5000 sample_random] by auto
  show ?thesis
    using d(1) sample_split_5000 [OF d(2) d(3)]
    by (intro exI [of _ d]) (simp add: failing_fit_library_def sample_library_def)
qed

subsection \<open>Training on an empty collection\<close>

text \<open>
  Claim C8: when the splitter rejects the empty sample collection (scikit-learn's
  \<open>train_test_split\<close> raises \<open>ValueError\<close> because the training part would be empty),
  \<open>train_model\<close> on empty \<open>X\<close> and \<open>y\<close> raises that error, and the predictor it was
  given, with its model and its loaded flag, and the file system are exactly as before.
\<close>

theorem train_model_empty_fails_atomically:
  "train_test_split L [] [] = Inl e \<Longrightarrow> train_model L p [] [] path fs = (Inl e, p, fs)"
  by (simp add: train_model_def)

theorem train_model_empty_fails_atomically_witness:
  "train_test_split sample_library [] [] = Inl (ValueError ''the resulting train set will be empty'')
   \<and> train_model sample_library (loaded_with sample_model) [] [] ''model/trained_model.joblib''
        [(''model/trained_model.joblib'', sample_model)]
      = (Inl (ValueError ''the resulting train set will be empty''), loaded_with sample_model,
         [(''model/trained_model.joblib'', sample_model)])"
proof -
  have h: "train_test_split sample_library [] []
             = Inl (ValueError ''the resulting train set will be empty'')"
    by (simp add: sample_library_def sample_split_def)
  show ?thesis
    using h train_model_empty_fails_atomically [OF h] by simp
qed

subsection \<open>The two engine states\<close>

text \<open>
  Claim C9, as stated, fails: \<open>load_model\<close> sets \<open>is_loaded\<close> to \<open>False\<close> in its
  \<open>except\<close> branch, so a failed load on a loaded predictor leaves it unloaded.
\<close>

theorem failed_load_leaves_unloaded:
  "is_loaded (loaded_with sample_model)
   \<and> load_model sample_library (loaded_with sample_model) ''missing.joblib'' []
       = (Inl (Exception ''Failed to load model: No such file or directory''),
          \<lparr>model = Some sample_model, is_loaded = False, feature_names = FEATURE_NAMES\<rparr>, [])"
  by (simp add: load_model_def sample_library_def loaded_with_def)

text \<open>
  Claim C9, amended: the engine has the two states given by \<open>is_loaded\<close>. A loaded
  predictor stays loaded under every operation on it (predict, save, feature
  importance, training with any outcome, a load that succeeds) except a load that
  fails, which sets the flag to \<open>False\<close>. A retrain that succeeds leaves the engine
  loaded; a retrain starts from a fresh unloaded predictor, so one whose fit fails
  leaves the engine unloaded whatever it held before.
\<close>

theorem loaded_kept_except_failed_load_or_retrain:
  "(is_loaded p \<and> engine_step L (p, fs) op = (failed, p1, fs1) \<and> \<not> (is_load op \<and> failed)
      \<longrightarrow> engine_state_of p1 = Loaded)
   \<and> (joblib_load L path fs = Inl e
      \<longrightarrow> engine_step L (p, fs) (OpLoad path) = (True, p\<lparr>is_loaded := False\<rparr>, fs))
   \<and> (retrain_model L R path g fs = (Inr msg, g2, fs2)
      \<longrightarrow> (\<exists>p2. g2 = Some p2 \<and> engine_state_of p2 = Loaded))
   \<and> (generate_training_data R 5000 = Inr d
       \<and> train_test_split L (td_X d) (td_y d) = Inr (X_train, X_test, y_train, y_test)
       \<and> xgb_fit L X_train y_train X_test y_test = Inl e
      \<longrightarrow> retrain_model L R path g fs =
            (Inl (HTTPException 500 (''Retraining failed: '' @ error_str e)),
             Some init_predictor, fs)
          \<and> engine_state_of init_predictor = Unloaded)"
proof (intro conjI impI)
  assume "is_loaded p \<and> engine_step L (p, fs) op = (failed, p1, fs1) \<and> \<not> (is_load op \<and> failed)"
  then have "is_loaded p1"
    using engine_step_keeps_loaded [of p L fs op failed p1 fs1] by blast
  then show "engine_state_of p1 = Loaded"
    by (simp add: engine_state_of_def)
next
  assume "joblib_load L path fs = Inl e"
  then show "engine_step L (p, fs) (OpLoad path) = (True, p\<lparr>is_loaded := False\<rparr>, fs)"
    by (rule failed_load_unloads)
next
  assume "retrain_model L R path g fs = (Inr msg, g2, fs2)"
  then show "\<exists>p2. g2 = Some p2 \<and> engine_state_of p2 = Loaded"
    using retrain_success_loaded [of L R path g fs msg g2 fs2]
    by (auto simp: engine_state_of_def)
next
  assume "generate_training_data R 5000 = Inr d
       \<and> train_test_split L (td_X d) (td_y d) = Inr (X_train, X_test, y_train, y_test)
       \<and> xgb_fit L X_train y_train X_test y_test = Inl e"
  then show "retrain_model L R path g fs =
            (Inl (HTTPException 500 (''Retraining failed: '' @ error_str e)),
             Some init_predictor, fs)"
    using retrain_fit_failure [of R d L X_train X_test y_train y_test e path g fs] by simp
next
  show "engine_state_of init_predictor = Unloaded"
    by (simp add: engine_state_of_def init_predictor_def)
qed

theorem loaded_kept_except_failed_load_or_retrain_witness:
  "is_loaded (loaded_with sample_model)
   \<and> engine_step sample_library (loaded_with sample_model, []) (OpSave ''m.joblib'')
       = (False, loaded_with sample_model, [(''m.joblib'', sample_model)])
   \<and> \<not> (is_load (OpSave ''m.joblib'') \<and> False)
   \<and> engine_state_of (loaded_with sample_model) = Loaded
   \<and> joblib_load sample_library ''missing.joblib'' [] = Inl (OSError ''No such file or directory'')
   \<and> engine_step sample_library (loaded_with sample_model, []) (OpLoad ''missing.joblib'')
       = (True, (loaded_with sample_model)\<lparr>is_loaded := False\<rparr>, [])
   \<and> retrain_model sample_library sample_random ''model/trained_model.joblib''
        (Some (loaded_with sample_model)) []
       = (Inr ''Model retrained successfully'', Some (loaded_with zero_model),
          [(''model/trained_model.joblib'', zero_model)])
   \<and> engine_state_of (loaded_with zero_model) = Loaded
   \<and> (\<exists>d. generate_training_data sample_random 5000 = Inr d
        \<and> train_test_split failing_fit_library (td_X d) (td_y d)
            = Inr (take 4000 (td_X d), drop 4000 (td_X d), take 4000 (td_y d), drop 4000 (td_y d))
        \<and> xgb_fit failing_fit_library (take 4000 (td_X d)) (take 4000 (td_y d))
            (drop 4000 (td_X d)) (drop 4000 (td_y d)) = Inl (ValueError ''fit failed''))
   \<and> retrain_model failing_fit_library sample_random ''model/trained_model.joblib''
        (Some (loaded_with sample_model)) []
       = (Inl (HTTPException 500 ''Retraining failed: fit failed''), Some init_predictor, [])"
proof -
  have a1: "is_loaded (loaded_with sample_model)"
    by (simp add: loaded_with_def)
  have a2: "engine_step sample_library (loaded_with sample_model, []) (OpSave ''m.joblib'')
       = (False, loaded_with sample_model, [(''m.joblib'', sample_model)])"
    by (simp add: save_model_def sample_library_def loaded_with_def)
  have a3: "\<not> (is_load (OpSave ''m.joblib'') \<and> False)"
    by simp
  have b1: "joblib_load sample_library ''missing.joblib'' [] = Inl (OSError ''No such file or directory'')"
    by (simp add: sample_library_def)
  have c1: "retrain_model sample_library sample_random ''model/trained_model.joblib''
        (Some (loaded_with sample_model)) []
       = (Inr ''Model retrained successfully'', Some (loaded_with zero_model),
          [(''model/trained_model.joblib'', zero_model)])"
    by (rule sample_retrain_succeeds)
  obtain d where d: "generate_training_data sample_random 5000 = Inr d"
    "train_test_split failing_fit_library (td_X d) (td_y d)
       = Inr (take 4000 (td_X d), drop 4000 (td_X d), take 4000 (td_y d), drop 4000 (td_y d))"
    "xgb_fit failing_fit_library (take 4000 (td_X d)) (take 4000 (td_y d))
       (drop 4000 (td_X d)) (drop 4000 (td_y d)) = Inl (ValueError ''fit failed'')"
    using sample_retrain_fit_failure by blast
  note t1 = loaded_kept_except_failed_load_or_retrain
      [where p = "loaded_with sample_model" and L = sample_library and fs = "[]"
        and op = "OpSave ''m.joblib''" and failed = False and ?p1.0 = "loaded_with sample_model"
        and ?fs1.0 = "[(''m.joblib'', sample_model)]" and path = "''missing.joblib''"
        and e = "OSError ''No such file or directory''"]
  note t2 = loaded_kept_except_failed_load_or_retrain
      [where L = sample_library and fs = "[]" and R = sample_random
        and path = "''model/trained_model.joblib''" and g = "Some (loaded_with sample_model)"
        and msg = "''Model retrained successfully''" and ?g2.0 = "Some (loaded_with zero_model)"
        and ?fs2.0 = "[(''model/trained_model.joblib'', zero_model)]"]
  note t3 = loaded_kept_except_failed_load_or_retrain
      [where L = failing_fit_library and fs = "[]" and R = sample_random
        and path = "''model/trained_model.joblib''" and g = "Some (loaded_with sample_model)"
        and e = "ValueError ''fit failed''" and d = d
        and X_train = "take 4000 (td_X d)" and X_test = "drop 4000 (td_X d)"
        and y_train = "take 4000 (td_y d)" and y_test = "drop 4000 (td_y d)"]
  have r1: "engine_state_of (loaded_with sample_model) = Loaded"
    using t1 a1 a2 a3 by blast
  have r2: "engine_step sample_library (loaded_with sample_model, []) (OpLoad ''missing.joblib'')
       = (True, (loaded_with sample_model)\<lparr>is_loaded := False\<rparr>, [])"
    using t1 b1 by blast
  have r3: "engine_state_of (loaded_with zero_model) = Loaded"
    using t2 c1 by blast
  have r4: "retrain_model failing_fit_library sample_random ''model/trained_model.joblib''
        (Some (loaded_with sample_model)) []
       = (Inl (HTTPException 500 ''Retraining failed: fit failed''), Some init_predictor, [])"
    using t3 d by simp
  show ?thesis
    using a1 a2 a3 b1 c1 d r1 r2 r3 r4 by blast
qed

end
